theory Spec2Isabelle
  imports Complex_Main "HOL-Library.Word" "HOL-Library.Sublist" "HOL-Library.Multiset"
begin

unbundle bit_operations_syntax

section \<open>The embedding store of the vector search engine\<close>

text \<open>
  The development follows \<^verbatim>\<open>embedding_server/gibson/database.py\<close>, class
  \<^verbatim>\<open>AsyncEmbeddingDatabase\<close>: a pandas table with the columns ID, Text and Embeddings
  that is kept in memory (\<^verbatim>\<open>self.data\<close>) and written as JSON to \<^verbatim>\<open>self.cache_path\<close>.
  The methods are coroutines, but none of them suspends before it is done (pandas reads
  and writes synchronously), so each call is one sequential step on the state.
\<close>

subsection \<open>SHA-256 and the identifier of a text\<close>

text \<open>
  \<^verbatim>\<open>id_value = hashlib.sha256(text.encode()).hexdigest()\<close>.
  A text is represented by its UTF-8 bytes (type \<open>string\<close>, one \<open>char\<close> per byte), which is
  what \<^verbatim>\<open>text.encode()\<close> hands to the hash; the empty text is the empty byte sequence.
  \<^verbatim>\<open>hashlib.sha256\<close> is the hash of FIPS 180-4, written out below on 32-bit words.
\<close>

type_synonym u32 = "32 word"
type_synonym byte = "8 word"

definition encode :: "string \<Rightarrow> byte list" where
  "encode text = map (\<lambda>c. of_nat (of_char c)) text"

definition rotr :: "nat \<Rightarrow> u32 \<Rightarrow> u32" where
  "rotr n x = word_rotr n x"

definition Ch :: "u32 \<Rightarrow> u32 \<Rightarrow> u32 \<Rightarrow> u32" where
  "Ch x y z = (x AND y) XOR (NOT x AND z)"

definition Maj :: "u32 \<Rightarrow> u32 \<Rightarrow> u32 \<Rightarrow> u32" where
  "Maj x y z = (x AND y) XOR (x AND z) XOR (y AND z)"

definition bsig0 :: "u32 \<Rightarrow> u32" where
  "bsig0 x = rotr 2 x XOR rotr 13 x XOR rotr 22 x"

definition bsig1 :: "u32 \<Rightarrow> u32" where
  "bsig1 x = rotr 6 x XOR rotr 11 x XOR rotr 25 x"

definition ssig0 :: "u32 \<Rightarrow> u32" where
  "ssig0 x = rotr 7 x XOR rotr 18 x XOR drop_bit 3 x"

definition ssig1 :: "u32 \<Rightarrow> u32" where
  "ssig1 x = rotr 17 x XOR rotr 19 x XOR drop_bit 10 x"

definition K256 :: "u32 list" where
  "K256 =
    [0x428A2F98, 0x71374491, 0xB5C0FBCF, 0xE9B5DBA5, 0x3956C25B, 0x59F111F1, 0x923F82A4, 0xAB1C5ED5,
     0xD807AA98, 0x12835B01, 0x243185BE, 0x550C7DC3, 0x72BE5D74, 0x80DEB1FE, 0x9BDC06A7, 0xC19BF174,
     0xE49B69C1, 0xEFBE4786, 0x0FC19DC6, 0x240CA1CC, 0x2DE92C6F, 0x4A7484AA, 0x5CB0A9DC, 0x76F988DA,
     0x983E5152, 0xA831C66D, 0xB00327C8, 0xBF597FC7, 0xC6E00BF3, 0xD5A79147, 0x06CA6351, 0x14292967,
     0x27B70A85, 0x2E1B2138, 0x4D2C6DFC, 0x53380D13, 0x650A7354, 0x766A0ABB, 0x81C2C92E, 0x92722C85,
     0xA2BFE8A1, 0xA81A664B, 0xC24B8B70, 0xC76C51A3, 0xD192E819, 0xD6990624, 0xF40E3585, 0x106AA070,
     0x19A4C116, 0x1E376C08, 0x2748774C, 0x34B0BCB5, 0x391C0CB3, 0x4ED8AA4A, 0x5B9CCA4F, 0x682E6FF3,
     0x748F82EE, 0x78A5636F, 0x84C87814, 0x8CC70208, 0x90BEFFFA, 0xA4506CEB, 0xBEF9A3F7, 0xC67178F2]"

type_synonym sha_state = "u32 \<times> u32 \<times> u32 \<times> u32 \<times> u32 \<times> u32 \<times> u32 \<times> u32"

definition H256 :: sha_state where
  "H256 = (0x6A09E667, 0xBB67AE85, 0x3C6EF372, 0xA54FF53A,
           0x510E527F, 0x9B05688C, 0x1F83D9AB, 0x5BE0CD19)"

text \<open>Padding: the byte 0x80, zero bytes up to 56 modulo 64, the bit length on 8 bytes.\<close>

definition length_bytes :: "nat \<Rightarrow> byte list" where
  "length_bytes n =
     (let l = (of_nat (8 * n) :: 64 word)
      in [ucast (drop_bit 56 l), ucast (drop_bit 48 l), ucast (drop_bit 40 l), ucast (drop_bit 32 l),
          ucast (drop_bit 24 l), ucast (drop_bit 16 l), ucast (drop_bit 8 l), ucast l])"

definition pad :: "byte list \<Rightarrow> byte list" where
  "pad m = m @ [0x80] @ replicate ((119 - length m mod 64) mod 64) 0 @ length_bytes (length m)"

fun be_word :: "byte list \<Rightarrow> u32" where
  "be_word [] = 0"
| "be_word (b # bs) = push_bit (8 * length bs) (ucast b) OR be_word bs"

fun chunks :: "nat \<Rightarrow> 'a list \<Rightarrow> 'a list list" where
  "chunks n [] = []"
| "chunks n (x # xs) =
     (if n = 0 then [] else take n (x # xs) # chunks n (drop n (x # xs)))"

text \<open>The message schedule: sixteen words of the block, extended to sixty-four.\<close>

fun extend :: "nat \<Rightarrow> u32 list \<Rightarrow> u32 list" where
  "extend 0 ws = ws"
| "extend (Suc n) ws =
     (let t = length ws
      in extend n (ws @ [ssig1 (ws ! (t - 2)) + ws ! (t - 7) + ssig0 (ws ! (t - 15)) + ws ! (t - 16)]))"

definition schedule :: "byte list \<Rightarrow> u32 list" where
  "schedule block = extend 48 (map be_word (chunks 4 block))"

fun sha_round :: "sha_state \<Rightarrow> u32 \<times> u32 \<Rightarrow> sha_state" where
  "sha_round (a, b, c, d, e, f, g, h) (k, w) =
     (let t1 = h + bsig1 e + Ch e f g + k + w;
          t2 = bsig0 a + Maj a b c
      in (t1 + t2, a, b, c, d + t1, e, f, g))"

fun add_state :: "sha_state \<Rightarrow> sha_state \<Rightarrow> sha_state" where
  "add_state (a, b, c, d, e, f, g, h) (a', b', c', d', e', f', g', h') =
     (a + a', b + b', c + c', d + d', e + e', f + f', g + g', h + h')"

definition compress :: "sha_state \<Rightarrow> byte list \<Rightarrow> sha_state" where
  "compress st block = add_state st (foldl sha_round st (zip K256 (schedule block)))"

fun word_bytes :: "u32 \<Rightarrow> byte list" where
  "word_bytes w = [ucast (drop_bit 24 w), ucast (drop_bit 16 w), ucast (drop_bit 8 w), ucast w]"

fun state_bytes :: "sha_state \<Rightarrow> byte list" where
  "state_bytes (a, b, c, d, e, f, g, h) = concat (map word_bytes [a, b, c, d, e, f, g, h])"

definition sha256 :: "byte list \<Rightarrow> byte list" where
  "sha256 m = state_bytes (foldl compress H256 (chunks 64 (pad m)))"

definition hex_digit :: "nat \<Rightarrow> char" where
  "hex_digit n = ''0123456789abcdef'' ! (n mod 16)"

definition hexdigest :: "byte list \<Rightarrow> string" where
  "hexdigest bs = concat (map (\<lambda>b. [hex_digit (unat b div 16), hex_digit (unat b)]) bs)"

definition sha256_hex :: "string \<Rightarrow> string" where
  "sha256_hex text = hexdigest (sha256 (encode text))"


subsection \<open>The table, the backing file and the errors\<close>

text \<open>
  A row of the table has the three columns of the source. The floats of an embedding are
  never computed with by the store (only counted), so they are reals here.
\<close>

record row =
  ID :: string
  Text :: string
  Embeddings :: "real list"

type_synonym DataFrame = "row list"

text \<open>
  The source raises \<^verbatim>\<open>ValueError\<close> twice, with two messages; they are told apart here under
  the names the specification gives them. \<open>PersistenceFailure\<close> stands for whatever
  \<^verbatim>\<open>to_json\<close> or \<^verbatim>\<open>pd.read_json\<close> raise (the source catches nothing, so it reaches the
  caller).
\<close>

datatype error =
    DuplicateEntry string  \<comment> \<open>\<^verbatim>\<open>ValueError("Entry with id=... already exists in the database")\<close>\<close>
  | InvalidDimension       \<comment> \<open>\<^verbatim>\<open>ValueError("Embeddings must have 768 dimensions")\<close>\<close>
  | PersistenceFailure     \<comment> \<open>an exception of the pandas reader or writer\<close>
  | InvalidArgument        \<comment> \<open>never raised by the store; the specification's error of \<open>rank\<close>\<close>

text \<open>
  The state is the object's \<^verbatim>\<open>self.data\<close> together with the part of the file system the
  object touches: the content of the file at \<^verbatim>\<open>self.cache_path\<close> (\<open>None\<close> when
  \<^verbatim>\<open>cache_path.exists()\<close> is false) and whether opening that file for writing succeeds.
  The type \<open>'f\<close> of file contents and the pandas functions \<^verbatim>\<open>to_json\<close> and \<^verbatim>\<open>read_json\<close>
  are parameters: they are library code, and nothing below depends on what they compute.
  \<^verbatim>\<open>to_json\<close> builds the JSON text, opens the file in mode \<^verbatim>\<open>"w"\<close>, which empties it, and
  writes the text. A write that fails before the file is open (the text cannot be built,
  the directory is missing, the file may not be written) leaves the file as it was; one
  that fails later (the disk is full) leaves what had been written by then.
  \<open>cache_partial\<close> says which of the two a failing write is: \<open>None\<close> for the first, and the
  content left in the file for the second. It plays no part when the write succeeds.
  \<^verbatim>\<open>cache_path\<close> is a \<^verbatim>\<open>Path\<close>, which counts as true in a condition, and the states are those
  of an object on which \<^verbatim>\<open>setup\<close> has been called or is being called (before that, the
  attribute \<^verbatim>\<open>data\<close> does not exist).
\<close>

record 'f state =
  data :: DataFrame
  cache_file :: "'f option"
  cache_writable :: bool
  cache_partial :: "'f option"

text \<open>\<^verbatim>\<open>_save\<close>: \<^verbatim>\<open>self.data.to_json(self.cache_path, index=False)\<close>.\<close>

definition save :: "(DataFrame \<Rightarrow> 'f) \<Rightarrow> 'f state \<Rightarrow> (error + unit) \<times> 'f state" where
  "save to_json s =
     (if cache_writable s then (Inr (), s\<lparr>cache_file := Some (to_json (data s))\<rparr>)
      else (Inl PersistenceFailure,
            case cache_partial s of None \<Rightarrow> s | Some c \<Rightarrow> s\<lparr>cache_file := Some c\<rparr>))"

text \<open>
  \<^verbatim>\<open>setup\<close>: the file is read when it exists (\<^verbatim>\<open>_read_json\<close> is \<^verbatim>\<open>pd.read_json(path)\<close>),
  otherwise the table starts empty, with its three columns and no row; in both cases
  \<^verbatim>\<open>_save\<close> is awaited after the conditional, before \<^verbatim>\<open>setup\<close> returns. When the reader raises, \<^verbatim>\<open>self.data\<close>
  has not been assigned.
\<close>

definition setup_db ::
  "('f \<Rightarrow> DataFrame option) \<Rightarrow> (DataFrame \<Rightarrow> 'f) \<Rightarrow> 'f state \<Rightarrow> (error + unit) \<times> 'f state" where
  "setup_db read_json to_json s =
     (case cache_file s of
        Some f \<Rightarrow>
          (case read_json f of
             None \<Rightarrow> (Inl PersistenceFailure, s)
           | Some d \<Rightarrow> save to_json (s\<lparr>data := d\<rparr>))
      | None \<Rightarrow> save to_json (s\<lparr>data := []\<rparr>))"

text \<open>
  \<^verbatim>\<open>insert\<close>: the identifier check, then the dimension check, then the append and the save,
  in the order of the source. The append is an assignment to \<^verbatim>\<open>self.data\<close> that happens
  before \<^verbatim>\<open>_save\<close> is called.
\<close>

definition insert_entry ::
  "(DataFrame \<Rightarrow> 'f) \<Rightarrow> string \<Rightarrow> real list \<Rightarrow> 'f state \<Rightarrow> (error + unit) \<times> 'f state" where
  "insert_entry to_json text embeddings s =
     (let id_value = sha256_hex text
      in if id_value \<in> set (map ID (data s)) then (Inl (DuplicateEntry id_value), s)
         else if length embeddings \<noteq> 768 then (Inl InvalidDimension, s)
         else save to_json
                (s\<lparr>data := data s @ [\<lparr>ID = id_value, Text = text, Embeddings = embeddings\<rparr>]\<rparr>))"

text \<open>A sequence of \<^verbatim>\<open>insert\<close> calls, each on the state the one before left, failed or not.\<close>

fun insert_all :: "(DataFrame \<Rightarrow> 'f) \<Rightarrow> 'f state \<Rightarrow> (string \<times> real list) list \<Rightarrow> 'f state" where
  "insert_all to_json s [] = s"
| "insert_all to_json s ((text, embeddings) # calls) =
     insert_all to_json (snd (insert_entry to_json text embeddings s)) calls"


text \<open>Every identifier in the table is the hash of the text beside it, and no two are equal.\<close>

definition hash_keyed :: "DataFrame \<Rightarrow> bool" where
  "hash_keyed d \<longleftrightarrow> distinct (map ID d) \<and> list_all (\<lambda>r. ID r = sha256_hex (Text r)) d"

text \<open>
  States used as examples, with the table itself as file content (\<open>to_json\<close> is \<open>id\<close>, the
  reader is \<open>Some\<close>): no file yet, with the disk accepting the write or refusing to open
  the file, and the state after a first \<open>insert\<close>.
\<close>

definition fresh_store :: "DataFrame state" where
  "fresh_store = \<lparr>data = [], cache_file = None, cache_writable = True, cache_partial = None\<rparr>"

definition readonly_store :: "DataFrame state" where
  "readonly_store = \<lparr>data = [], cache_file = None, cache_writable = False, cache_partial = None\<rparr>"

definition abc_store :: "DataFrame state" where
  "abc_store = snd (insert_entry id ''abc'' (replicate 768 0) fresh_store)"

text \<open>A new process on the disk that \<open>abc_store\<close> left: the file is there, nothing is loaded.\<close>

definition restart_store :: "DataFrame state" where
  "restart_store = abc_store\<lparr>data := []\<rparr>"

text \<open>The same, on a disk that has turned read-only since.\<close>

definition locked_store :: "DataFrame state" where
  "locked_store = restart_store\<lparr>cache_writable := False\<rparr>"

text \<open>
  The state \<open>abc_store\<close> on a disk that has filled up: the file can be opened, which empties
  it, and the write then fails, leaving a file without a row.
\<close>

definition full_disk_store :: "DataFrame state" where
  "full_disk_store = abc_store\<lparr>cache_writable := False, cache_partial := Some []\<rparr>"


subsection \<open>The pandas writer\<close>










subsection \<open>The similarity engine\<close>

text \<open>
  Modelled from the spec: the scoring and ranking code of the SimilarityEngine (what answers
  the \<^verbatim>\<open>/search\<close> requests of the user interface) is not among the sources, so the
  definitions of this subsection follow section 4.2 of the specification word by word.
  The dot product of two vectors.
\<close>

definition dot :: "real list \<Rightarrow> real list \<Rightarrow> real" where
  "dot xs ys = sum_list (map2 (*) xs ys)"

text \<open>Modelled from the spec: the magnitude of a vector (the scoring code is missing).\<close>

definition magnitude :: "real list \<Rightarrow> real" where
  "magnitude xs = sqrt (dot xs xs)"

text \<open>
  Modelled from the spec: the score (the scoring code is missing), "dot product divided by
  the product of the two vectors' magnitudes", not clamped. The specification does not say
  what the score of a vector of magnitude zero is; the quotient below is 0 there, and
  no statement of this development depends on that value.
\<close>

definition cosine_similarity :: "real list \<Rightarrow> real list \<Rightarrow> real" where
  "cosine_similarity q e = dot q e / (magnitude q * magnitude e)"

text \<open>
  Modelled from the spec: a result of \<open>rank\<close> (missing from the sources) is a triple of
  identifier, text and score.
\<close>

type_synonym scored = "string \<times> string \<times> real"

definition score :: "scored \<Rightarrow> real" where
  "score r = snd (snd r)"

text \<open>
  Modelled from the spec: the scan of \<open>rank\<close> (missing from the sources). A stored entry
  whose embedding has not the dimension of the query is skipped; every other entry is
  scored, in the order of the store.
\<close>

definition candidates :: "real list \<Rightarrow> row list \<Rightarrow> scored list" where
  "candidates query_embedding entries =
     map (\<lambda>e. (ID e, Text e, cosine_similarity query_embedding (Embeddings e)))
       (filter (\<lambda>e. length (Embeddings e) = length query_embedding) entries)"

text \<open>
  Modelled from the spec: the sort of \<open>rank\<close> (missing from the sources), by descending
  score and stable: an insertion sort on the negated score.
\<close>

definition sort_by_score :: "scored list \<Rightarrow> scored list" where
  "sort_by_score rs = sort_key (\<lambda>r. - score r) rs"

text \<open>
  Modelled from the spec: \<open>rank(query_embedding, entries, k)\<close> of the SimilarityEngine
  (missing from the sources): \<open>k \<le> 0\<close> is rejected with \<open>InvalidArgument\<close>, otherwise the
  first \<open>k\<close> of the sorted candidates are returned, all of them when there are fewer.
\<close>

definition rank :: "real list \<Rightarrow> row list \<Rightarrow> int \<Rightarrow> error + scored list" where
  "rank query_embedding entries k =
     (if k \<le> 0 then Inl InvalidArgument
      else Inr (take (nat k) (sort_by_score (candidates query_embedding entries))))"

text \<open>
  The example of the specification: against \<open>query_x\<close> the entries A, B and C score 0.9, 0.5
  and 0.9. \<open>query_y\<close> has another dimension than the three entries.
\<close>

definition query_x :: "real list" where
  "query_x = [1, 0, 0, 0]"

definition query_y :: "real list" where
  "query_y = [1, 0]"

definition entry_A :: row where
  "entry_A = \<lparr>ID = ''A'', Text = ''first'', Embeddings = [9, 3, 3, 1]\<rparr>"

definition entry_B :: row where
  "entry_B = \<lparr>ID = ''B'', Text = ''second'', Embeddings = [1, 1, 1, 1]\<rparr>"

definition entry_C :: row where
  "entry_C = \<lparr>ID = ''C'', Text = ''third'', Embeddings = [9, 1, 3, 3]\<rparr>"


section \<open>Facts about the identifier\<close>

lemma length_state_bytes: "length (state_bytes st) = 32"
  by (induction st rule: state_bytes.induct) simp

lemma length_hexdigest: "length (hexdigest bs) = 2 * length bs"
  by (induction bs) (simp_all add: hexdigest_def)

lemma hex_digit_mem: "hex_digit n \<in> set ''0123456789abcdef''"
proof -
  have "n mod 16 < length ''0123456789abcdef''" by simp
  then show ?thesis unfolding hex_digit_def by (rule nth_mem)
qed

lemma set_hexdigest: "set (hexdigest bs) \<subseteq> set ''0123456789abcdef''"
  unfolding hexdigest_def using hex_digit_mem by auto

lemma length_sha256_hex: "length (sha256_hex text) = 64"
  by (simp add: sha256_hex_def sha256_def length_hexdigest length_state_bytes)

lemma set_sha256_hex: "set (sha256_hex text) \<subseteq> set ''0123456789abcdef''"
  unfolding sha256_hex_def by (rule set_hexdigest)

text \<open>
  The digests that \<^verbatim>\<open>hashlib\<close> gives for the empty text, for \<^verbatim>\<open>abc\<close> and for a text of 56
  bytes, which takes two blocks (the examples of FIPS 180-4).
\<close>

lemma sha256_hex_empty:
  "sha256_hex '''' = ''e3b0c44298fc1c149afbf4c8996fb92427ae41e4649b934ca495991b7852b855''"
  by code_simp

lemma sha256_hex_abc:
  "sha256_hex ''abc'' = ''ba7816bf8f01cfea414140de5dae2223b00361a396177a9cb410ff61f20015ad''"
  by code_simp

lemma sha256_hex_two_blocks:
  "sha256_hex ''abcdbcdecdefdefgefghfghighijhijkijkljklmklmnlmnomnopnopq'' =
     ''248d6a61d20638b8e5c026930c3e6039a33ce45964ff2167f6ecedd419db06c1''"
  by code_simp

lemma sha256_hex_empty_neq_abc: "sha256_hex '''' \<noteq> sha256_hex ''abc''"
  by (simp add: sha256_hex_empty sha256_hex_abc)

section \<open>The three outcomes of the checks of insert\<close>

lemma insert_entry_present:
  "sha256_hex text \<in> set (map ID (data s)) \<Longrightarrow>
   insert_entry to_json text embeddings s = (Inl (DuplicateEntry (sha256_hex text)), s)"
  by (simp add: insert_entry_def Let_def)

lemma insert_entry_wrong_length:
  "sha256_hex text \<notin> set (map ID (data s)) \<Longrightarrow> length embeddings \<noteq> 768 \<Longrightarrow>
   insert_entry to_json text embeddings s = (Inl InvalidDimension, s)"
  by (simp add: insert_entry_def Let_def)

lemma insert_entry_valid:
  "sha256_hex text \<notin> set (map ID (data s)) \<Longrightarrow> length embeddings = 768 \<Longrightarrow>
   insert_entry to_json text embeddings s =
     save to_json (s\<lparr>data := data s @ [\<lparr>ID = sha256_hex text, Text = text, Embeddings = embeddings\<rparr>]\<rparr>)"
  by (simp add: insert_entry_def Let_def)

lemma data_save: "data (snd (save to_json s)) = data s"
  by (simp add: save_def split: option.split)

lemma data_insert_entry:
  "data (snd (insert_entry to_json text embeddings s)) =
     (if sha256_hex text \<notin> set (map ID (data s)) \<and> length embeddings = 768
      then data s @ [\<lparr>ID = sha256_hex text, Text = text, Embeddings = embeddings\<rparr>]
      else data s)"
  by (simp add: insert_entry_def Let_def data_save)

lemma fst_save: "fst (save to_json s) = (if cache_writable s then Inr () else Inl PersistenceFailure)"
  by (simp add: save_def)

lemma data_abc_store:
  "data abc_store = [\<lparr>ID = sha256_hex ''abc'', Text = ''abc'', Embeddings = replicate 768 0\<rparr>]"
  by (simp add: abc_store_def fresh_store_def data_insert_entry)

section \<open>Invariants of the table under insert\<close>

lemma embeddings_768_insert_entry:
  "list_all (\<lambda>r. length (Embeddings r) = 768) (data s) \<Longrightarrow>
   list_all (\<lambda>r. length (Embeddings r) = 768) (data (snd (insert_entry to_json text embeddings s)))"
  by (simp add: data_insert_entry)

lemma embeddings_768_insert_all:
  "list_all (\<lambda>r. length (Embeddings r) = 768) (data s) \<Longrightarrow>
   list_all (\<lambda>r. length (Embeddings r) = 768) (data (insert_all to_json s calls))"
proof (induction calls arbitrary: s)
  case Nil
  then show ?case by simp
next
  case (Cons c calls)
  obtain t e where c: "c = (t, e)" by (cases c)
  from Cons.prems have "list_all (\<lambda>r. length (Embeddings r) = 768)
      (data (snd (insert_entry to_json t e s)))"
    by (rule embeddings_768_insert_entry)
  then show ?case unfolding c insert_all.simps by (rule Cons.IH)
qed

lemma hash_keyed_insert_entry:
  "hash_keyed (data s) \<Longrightarrow> hash_keyed (data (snd (insert_entry to_json text embeddings s)))"
  by (auto simp add: data_insert_entry hash_keyed_def)

lemma hash_keyed_insert_all:
  "hash_keyed (data s) \<Longrightarrow> hash_keyed (data (insert_all to_json s calls))"
proof (induction calls arbitrary: s)
  case Nil
  then show ?case by simp
next
  case (Cons c calls)
  obtain t e where c: "c = (t, e)" by (cases c)
  from Cons.prems have "hash_keyed (data (snd (insert_entry to_json t e s)))"
    by (rule hash_keyed_insert_entry)
  then show ?case unfolding c insert_all.simps by (rule Cons.IH)
qed


lemma abc_store_eq:
  "abc_store = \<lparr>data = [\<lparr>ID = sha256_hex ''abc'', Text = ''abc'', Embeddings = replicate 768 0\<rparr>],
                 cache_file = Some [\<lparr>ID = sha256_hex ''abc'', Text = ''abc'', Embeddings = replicate 768 0\<rparr>],
                 cache_writable = True, cache_partial = None\<rparr>"
  by (simp add: abc_store_def fresh_store_def insert_entry_def Let_def save_def)

text \<open>
  Saving and then setting up again hands the table to the pandas writer and takes back
  what the pandas reader makes of the file.
\<close>

lemma setup_after_save:
  "cache_writable s \<Longrightarrow>
   data (snd (setup_db read_json to_json (snd (save to_json s)))) =
     (case read_json (to_json (data s)) of Some d \<Rightarrow> d | None \<Rightarrow> data s)"
  by (simp add: setup_db_def save_def split: option.split)


section \<open>Facts about the numerals of the writer\<close>




















section \<open>Facts about the ranking\<close>

lemma sorted_sort_by_score: "sorted_wrt (\<lambda>a b. score b \<le> score a) (sort_by_score rs)"
proof -
  have "sorted (map (\<lambda>r. - score r) (sort_key (\<lambda>r. - score r) rs))"
    by (rule sorted_sort_key)
  then show ?thesis
    by (simp add: sort_by_score_def sorted_map)
qed

lemma stable_sort_by_score:
  "filter (\<lambda>r. score r = v) (sort_by_score rs) = filter (\<lambda>r. score r = v) rs"
proof -
  have "filter (\<lambda>r. - score r = - v) (sort_key (\<lambda>r. - score r) rs) = filter (\<lambda>r. - score r = - v) rs"
    by (rule sort_key_stable)
  then show ?thesis
    by (simp add: sort_by_score_def)
qed

lemma mset_sort_by_score: "mset (sort_by_score rs) = mset rs"
  by (simp add: sort_by_score_def)

lemma length_sort_by_score: "length (sort_by_score rs) = length rs"
  by (simp add: sort_by_score_def)

lemma length_candidates_le: "length (candidates q es) \<le> length es"
  by (simp add: candidates_def)

lemma length_candidates_all:
  "list_all (\<lambda>e. length (Embeddings e) = length q) es \<Longrightarrow> length (candidates q es) = length es"
  by (simp add: candidates_def list_all_iff)

lemma rank_positive:
  "0 < k \<Longrightarrow> rank q es k = Inr (take (nat k) (sort_by_score (candidates q es)))"
  by (simp add: rank_def)

lemma sqrt_100: "sqrt 100 = 10"
  by (rule real_sqrt_unique) simp_all

lemma candidates_example:
  "candidates query_x [entry_A, entry_B, entry_C] =
     [(''A'', ''first'', 9 / 10), (''B'', ''second'', 1 / 2), (''C'', ''third'', 9 / 10)]"
  by (simp add: candidates_def query_x_def entry_A_def entry_B_def entry_C_def
      cosine_similarity_def magnitude_def dot_def sqrt_100)

lemma sorted_example:
  "sort_by_score [(''A'', ''first'', 9 / 10), (''B'', ''second'', 1 / 2), (''C'', ''third'', 9 / 10)] =
     [(''A'', ''first'', 9 / 10), (''C'', ''third'', 9 / 10), (''B'', ''second'', 1 / 2 :: real)]"
  by (simp add: sort_by_score_def score_def)

lemma candidates_other_dimension: "candidates query_y [entry_A, entry_B, entry_C] = []"
  by (simp add: candidates_def query_y_def entry_A_def entry_B_def entry_C_def)

lemma take_2_of_3: "take 2 [a, b, c] = [a, b]"
  by (simp add: numeral_2_eq_2)

section \<open>The claims about the store\<close>

text \<open>
  C1. For every state and every text whose identifier (the SHA-256 hex digest of the text)
  is already in the ID column, \<open>insert\<close> fails with \<open>DuplicateEntry\<close>, and the state after
  the rejected call is the state before it: the same table, of the same size, and the same file.
\<close>

theorem insert_duplicate_rejected:
  assumes "sha256_hex text \<in> set (map ID (data s))"
  shows "fst (insert_entry to_json text embeddings s) = Inl (DuplicateEntry (sha256_hex text))
       \<and> snd (insert_entry to_json text embeddings s) = s
       \<and> length (data (snd (insert_entry to_json text embeddings s))) = length (data s)"
  using assms by (simp add: insert_entry_present)

theorem insert_duplicate_rejected_witness:
  "sha256_hex ''abc'' \<in> set (map ID (data abc_store))
   \<and> fst (insert_entry id ''abc'' (replicate 768 1) abc_store) = Inl (DuplicateEntry (sha256_hex ''abc''))
   \<and> snd (insert_entry id ''abc'' (replicate 768 1) abc_store) = abc_store
   \<and> length (data (snd (insert_entry id ''abc'' (replicate 768 1) abc_store))) = length (data abc_store)"
proof -
  have h: "sha256_hex ''abc'' \<in> set (map ID (data abc_store))"
    by (simp add: data_abc_store)
  from insert_duplicate_rejected [OF h, of id "replicate 768 1"] h show ?thesis by simp
qed

text \<open>
  C10. The identifier check comes before the dimension check: for every state, a text whose
  identifier is already in the ID column, inserted with an embedding whose length is not 768,
  fails with \<open>DuplicateEntry\<close> and not with \<open>InvalidDimension\<close>.
\<close>

theorem duplicate_check_precedes_dimension_check:
  assumes "sha256_hex text \<in> set (map ID (data s))" and "length embeddings \<noteq> 768"
  shows "fst (insert_entry to_json text embeddings s) = Inl (DuplicateEntry (sha256_hex text))
       \<and> fst (insert_entry to_json text embeddings s) \<noteq> Inl InvalidDimension"
  using assms by (simp add: insert_entry_present)

theorem duplicate_check_precedes_dimension_check_witness:
  "sha256_hex ''abc'' \<in> set (map ID (data abc_store))
   \<and> length (replicate 769 (0::real)) \<noteq> 768
   \<and> fst (insert_entry id ''abc'' (replicate 769 0) abc_store) = Inl (DuplicateEntry (sha256_hex ''abc''))
   \<and> fst (insert_entry id ''abc'' (replicate 769 0) abc_store) \<noteq> Inl InvalidDimension"
proof -
  have h1: "sha256_hex ''abc'' \<in> set (map ID (data abc_store))"
    by (simp add: data_abc_store)
  have h2: "length (replicate 769 (0::real)) \<noteq> 768"
    by simp
  from duplicate_check_precedes_dimension_check [OF h1 h2, of id] h1 h2 show ?thesis by simp
qed

text \<open>
  C2, as the code has it. For every state, text and embedding whose length is not 768,
  \<open>insert\<close> fails and leaves the state unchanged; the error is \<open>InvalidDimension\<close> when the
  identifier of the text is not in the ID column yet, and \<open>DuplicateEntry\<close> when it is (the
  identifier is checked first). Consequently a table in which every embedding has length
  768, the empty one among them, still is one after any sequence of \<open>insert\<close> calls.
\<close>

theorem dimension_guard:
  "(length embeddings \<noteq> 768 \<longrightarrow>
      snd (insert_entry to_json text embeddings s) = s
      \<and> fst (insert_entry to_json text embeddings s) =
          (if sha256_hex text \<in> set (map ID (data s)) then Inl (DuplicateEntry (sha256_hex text))
           else Inl InvalidDimension))
   \<and> (list_all (\<lambda>r. length (Embeddings r) = 768) (data s0) \<longrightarrow>
      list_all (\<lambda>r. length (Embeddings r) = 768) (data (insert_all to_json s0 calls)))"
  by (simp add: insert_entry_present insert_entry_wrong_length embeddings_768_insert_all)

theorem dimension_guard_witness:
  "length (replicate 767 (0::real)) \<noteq> 768
   \<and> insert_entry id ''abc'' (replicate 767 0) fresh_store = (Inl InvalidDimension, fresh_store)
   \<and> list_all (\<lambda>r. length (Embeddings r) = 768) (data fresh_store)
   \<and> list_all (\<lambda>r. length (Embeddings r) = 768)
        (data (insert_all id fresh_store [(''abc'', replicate 768 0), (''abc'', replicate 769 0)]))"
proof -
  have h1: "length (replicate 767 (0::real)) \<noteq> 768"
    by simp
  have h2: "list_all (\<lambda>r. length (Embeddings r) = 768) (data fresh_store)"
    by (simp add: fresh_store_def)
  have h3: "sha256_hex ''abc'' \<notin> set (map ID (data fresh_store))"
    by (simp add: fresh_store_def)
  from dimension_guard [of "replicate 767 0" id "''abc''" fresh_store fresh_store
      "[(''abc'', replicate 768 0), (''abc'', replicate 769 0)]"] h1 h2 h3
  show ?thesis by (simp add: prod_eq_iff)
qed

text \<open>
  C2 as stated fails: with an embedding of length 767 and a text that is already in the
  store, the error is not \<open>InvalidDimension\<close>.
\<close>

theorem dimension_guard_counterexample:
  "length (replicate 767 (0::real)) \<noteq> 768
   \<and> fst (insert_entry id ''abc'' (replicate 767 0) abc_store) \<noteq> Inl InvalidDimension"
  by (simp add: insert_entry_present data_abc_store)



text \<open>
  C3, as the code has it. For a text whose identifier is new and an embedding of length 768:
  when the write succeeds, \<open>insert\<close> returns normally with the entry appended to the table
  in memory and the whole table written to the backing file; when the write fails, the
  failure reaches the caller, and the table in memory keeps the appended entry (the append
  is an assignment made before the save, and nothing undoes it), so that memory and disk
  can differ.
\<close>

theorem insert_appends_then_saves:
  assumes "sha256_hex text \<notin> set (map ID (data s))" and "length embeddings = 768"
  shows "(cache_writable s \<longrightarrow>
            insert_entry to_json text embeddings s =
              (Inr (), s\<lparr>data := data s @ [\<lparr>ID = sha256_hex text, Text = text, Embeddings = embeddings\<rparr>],
                         cache_file := Some (to_json (data s @
                            [\<lparr>ID = sha256_hex text, Text = text, Embeddings = embeddings\<rparr>]))\<rparr>))
       \<and> (\<not> cache_writable s \<longrightarrow>
            fst (insert_entry to_json text embeddings s) = Inl PersistenceFailure
            \<and> data (snd (insert_entry to_json text embeddings s)) =
                data s @ [\<lparr>ID = sha256_hex text, Text = text, Embeddings = embeddings\<rparr>])"
  using assms by (simp add: insert_entry_valid save_def split: option.split)

theorem insert_appends_then_saves_witness:
  "sha256_hex ''abc'' \<notin> set (map ID (data fresh_store))
   \<and> sha256_hex ''abc'' \<notin> set (map ID (data readonly_store))
   \<and> sha256_hex '''' \<notin> set (map ID (data full_disk_store))
   \<and> length (replicate 768 (0::real)) = 768
   \<and> cache_writable fresh_store
   \<and> insert_entry id ''abc'' (replicate 768 0) fresh_store =
        (Inr (), \<lparr>data = [\<lparr>ID = sha256_hex ''abc'', Text = ''abc'', Embeddings = replicate 768 0\<rparr>],
                  cache_file = Some [\<lparr>ID = sha256_hex ''abc'', Text = ''abc'', Embeddings = replicate 768 0\<rparr>],
                  cache_writable = True, cache_partial = None\<rparr>)
   \<and> \<not> cache_writable readonly_store
   \<and> fst (insert_entry id ''abc'' (replicate 768 0) readonly_store) = Inl PersistenceFailure
   \<and> data (snd (insert_entry id ''abc'' (replicate 768 0) readonly_store)) =
        [\<lparr>ID = sha256_hex ''abc'', Text = ''abc'', Embeddings = replicate 768 0\<rparr>]
   \<and> \<not> cache_writable full_disk_store
   \<and> fst (insert_entry id '''' (replicate 768 0) full_disk_store) = Inl PersistenceFailure
   \<and> data (snd (insert_entry id '''' (replicate 768 0) full_disk_store)) =
        [\<lparr>ID = sha256_hex ''abc'', Text = ''abc'', Embeddings = replicate 768 0\<rparr>,
         \<lparr>ID = sha256_hex '''', Text = '''', Embeddings = replicate 768 0\<rparr>]"
proof -
  have h1: "sha256_hex ''abc'' \<notin> set (map ID (data fresh_store))"
    by (simp add: fresh_store_def)
  have h2: "sha256_hex ''abc'' \<notin> set (map ID (data readonly_store))"
    by (simp add: readonly_store_def)
  have h3: "sha256_hex '''' \<notin> set (map ID (data full_disk_store))"
    using sha256_hex_empty_neq_abc by (simp add: full_disk_store_def data_abc_store)
  have h4: "length (replicate 768 (0::real)) = 768"
    by simp
  have h5: "cache_writable fresh_store" "\<not> cache_writable readonly_store"
    "\<not> cache_writable full_disk_store"
    by (simp_all add: fresh_store_def readonly_store_def full_disk_store_def)
  from insert_appends_then_saves [OF h1 h4, of id] insert_appends_then_saves [OF h2 h4, of id]
    insert_appends_then_saves [OF h3 h4, of id] h1 h2 h3 h4 h5
  show ?thesis
    by (simp add: fresh_store_def readonly_store_def full_disk_store_def data_abc_store)
qed

text \<open>
  C3 as stated fails: on a disk that refuses the write, the insert of a valid new entry is
  reported as failed, yet the table in memory has changed, and no file holds it.
\<close>

theorem insert_appends_then_saves_counterexample:
  "fst (insert_entry id ''abc'' (replicate 768 0) readonly_store) = Inl PersistenceFailure
   \<and> data (snd (insert_entry id ''abc'' (replicate 768 0) readonly_store)) \<noteq> data readonly_store
   \<and> cache_file (snd (insert_entry id ''abc'' (replicate 768 0) readonly_store)) = None"
  by (simp add: insert_entry_def Let_def save_def readonly_store_def)

text \<open>
  C5. An entry that \<open>insert\<close> has stored carries as its identifier the SHA-256 digest of its
  text in hexadecimal: 64 characters among \<open>0-9a-f\<close>, a function of the text alone (the
  embedding plays no part in it), and the digest that \<^verbatim>\<open>hashlib\<close> computes: for the empty
  text, for \<^verbatim>\<open>abc\<close> and for the two-block example of FIPS 180-4 it is the published one.
  The identifier is the only key of the store: a call is rejected as a duplicate exactly
  when the digest of its text is in the ID column, and in a store built by \<open>insert\<close> calls
  every identifier is the digest of the text beside it and no identifier occurs twice.
\<close>

theorem id_is_hash_of_text:
  "(insert_entry to_json text embeddings s = (Inr (), s') \<longrightarrow>
      data s' = data s @ [\<lparr>ID = sha256_hex text, Text = text, Embeddings = embeddings\<rparr>])
   \<and> length (sha256_hex text) = 64
   \<and> set (sha256_hex text) \<subseteq> set ''0123456789abcdef''
   \<and> sha256_hex '''' = ''e3b0c44298fc1c149afbf4c8996fb92427ae41e4649b934ca495991b7852b855''
   \<and> sha256_hex ''abc'' = ''ba7816bf8f01cfea414140de5dae2223b00361a396177a9cb410ff61f20015ad''
   \<and> sha256_hex ''abcdbcdecdefdefgefghfghighijhijkijkljklmklmnlmnomnopnopq'' =
        ''248d6a61d20638b8e5c026930c3e6039a33ce45964ff2167f6ecedd419db06c1''
   \<and> ((\<exists>i. fst (insert_entry to_json text embeddings s) = Inl (DuplicateEntry i))
        = (sha256_hex text \<in> set (map ID (data s))))
   \<and> (hash_keyed (data s0) \<longrightarrow> hash_keyed (data (insert_all to_json s0 calls)))"
proof -
  have "data s' = data s @ [\<lparr>ID = sha256_hex text, Text = text, Embeddings = embeddings\<rparr>]"
    if ok: "insert_entry to_json text embeddings s = (Inr (), s')"
  proof -
    have "data (snd (insert_entry to_json text embeddings s)) = data s'"
      by (simp add: ok)
    moreover have "sha256_hex text \<notin> set (map ID (data s)) \<and> length embeddings = 768"
      using ok by (auto simp add: insert_entry_def Let_def split: if_splits)
    ultimately show ?thesis
      by (simp add: data_insert_entry)
  qed
  moreover have "(\<exists>i. fst (insert_entry to_json text embeddings s) = Inl (DuplicateEntry i))
        = (sha256_hex text \<in> set (map ID (data s)))"
    by (simp add: insert_entry_def Let_def fst_save)
  ultimately show ?thesis
    using length_sha256_hex [of "text"] set_sha256_hex [of "text"]
      hash_keyed_insert_all [of s0 to_json calls]
      sha256_hex_empty sha256_hex_abc sha256_hex_two_blocks
    by blast
qed

theorem id_is_hash_of_text_witness:
  "insert_entry id ''abc'' (replicate 768 0) fresh_store = (Inr (), abc_store)
   \<and> data abc_store = data fresh_store @
        [\<lparr>ID = ''ba7816bf8f01cfea414140de5dae2223b00361a396177a9cb410ff61f20015ad'',
          Text = ''abc'', Embeddings = replicate 768 0\<rparr>]
   \<and> hash_keyed (data fresh_store)
   \<and> hash_keyed (data (insert_all id fresh_store [(''abc'', replicate 768 0), (''abc'', replicate 768 1)]))"
proof -
  have h1: "insert_entry id ''abc'' (replicate 768 0) fresh_store = (Inr (), abc_store)"
    by (simp add: abc_store_def insert_entry_def Let_def save_def fresh_store_def)
  have h2: "hash_keyed (data fresh_store)"
    by (simp add: hash_keyed_def fresh_store_def)
  note r = id_is_hash_of_text [of id "''abc''" "replicate 768 0" fresh_store abc_store fresh_store
      "[(''abc'', replicate 768 0), (''abc'', replicate 768 1)]"]
  from r h1 have "data abc_store = data fresh_store @
      [\<lparr>ID = sha256_hex ''abc'', Text = ''abc'', Embeddings = replicate 768 0\<rparr>]"
    by blast
  moreover from r have "sha256_hex ''abc'' = ''ba7816bf8f01cfea414140de5dae2223b00361a396177a9cb410ff61f20015ad''"
    by blast
  moreover from r h2 have "hash_keyed (data (insert_all id fresh_store
      [(''abc'', replicate 768 0), (''abc'', replicate 768 1)]))"
    by blast
  ultimately show ?thesis
    using h1 h2 by simp
qed

text \<open>
  C8, as the code has it. \<open>insert\<close> does not look at whether the text is empty: the empty
  text, when its identifier is not in the ID column yet, with an embedding of length 768
  and a disk that takes the write, is stored like any other text, so a store can hold an
  entry whose text is empty.
\<close>

theorem empty_text_is_inserted:
  assumes "sha256_hex '''' \<notin> set (map ID (data s))" and "length embeddings = 768"
      and "cache_writable s"
  shows "fst (insert_entry to_json '''' embeddings s) = Inr ()
       \<and> data (snd (insert_entry to_json '''' embeddings s)) =
           data s @ [\<lparr>ID = sha256_hex '''', Text = '''', Embeddings = embeddings\<rparr>]"
  using assms by (simp add: insert_entry_valid save_def)

theorem empty_text_is_inserted_witness:
  "sha256_hex '''' \<notin> set (map ID (data abc_store))
   \<and> length (replicate 768 (1::real)) = 768
   \<and> cache_writable abc_store
   \<and> fst (insert_entry id '''' (replicate 768 1) abc_store) = Inr ()
   \<and> data (snd (insert_entry id '''' (replicate 768 1) abc_store)) =
        data abc_store @ [\<lparr>ID = sha256_hex '''', Text = '''', Embeddings = replicate 768 1\<rparr>]"
proof -
  have ne: "sha256_hex '''' \<noteq> sha256_hex ''abc''"
    by code_simp
  have h1: "sha256_hex '''' \<notin> set (map ID (data abc_store))"
    using ne by (simp add: data_abc_store)
  have h2: "length (replicate 768 (1::real)) = 768"
    by simp
  have h3: "cache_writable abc_store"
    by (simp add: abc_store_eq)
  from empty_text_is_inserted [OF h1 h2 h3, of id] h1 h2 h3 show ?thesis by simp
qed

text \<open>
  C8 as stated fails: the empty text with an embedding of length 768 is accepted by the
  empty store, which then holds an empty text.
\<close>

theorem empty_text_is_inserted_counterexample:
  "fst (insert_entry id '''' (replicate 768 0) fresh_store) = Inr ()
   \<and> map Text (data (snd (insert_entry id '''' (replicate 768 0) fresh_store))) = ['''']"
  by (simp add: insert_entry_def Let_def save_def fresh_store_def)

text \<open>
  C9, as the code has it. When the backing file exists, \<open>setup\<close> makes the table what the
  reader yields from it; when the file is missing, \<open>setup\<close> reads nothing and starts from the
  empty table. In both cases it then writes the table to the backing file, and it returns
  normally exactly when that write succeeds: the file then holds the table that was
  loaded, or the empty table after a first run.
\<close>

theorem setup_loads_or_starts_empty:
  "(cache_file s = Some f \<and> read_json f = Some d \<longrightarrow>
      data (snd (setup_db read_json to_json s)) = d
      \<and> (cache_writable s \<longrightarrow>
           setup_db read_json to_json s = (Inr (), s\<lparr>data := d, cache_file := Some (to_json d)\<rparr>))
      \<and> (\<not> cache_writable s \<longrightarrow> fst (setup_db read_json to_json s) = Inl PersistenceFailure))
   \<and> (cache_file s = None \<longrightarrow>
      data (snd (setup_db read_json to_json s)) = []
      \<and> (cache_writable s \<longrightarrow>
           setup_db read_json to_json s = (Inr (), s\<lparr>data := [], cache_file := Some (to_json [])\<rparr>))
      \<and> (\<not> cache_writable s \<longrightarrow> fst (setup_db read_json to_json s) = Inl PersistenceFailure))"
  by (simp add: setup_db_def save_def split: option.split)

theorem setup_loads_or_starts_empty_witness:
  "cache_file restart_store = Some (data abc_store)
   \<and> cache_writable restart_store
   \<and> setup_db Some id restart_store = (Inr (), abc_store)
   \<and> cache_file locked_store = Some (data abc_store)
   \<and> \<not> cache_writable locked_store
   \<and> data (snd (setup_db Some id locked_store)) = data abc_store
   \<and> fst (setup_db Some id locked_store) = Inl PersistenceFailure
   \<and> cache_file fresh_store = None \<and> cache_writable fresh_store
   \<and> setup_db Some id fresh_store =
        (Inr (), \<lparr>data = [], cache_file = Some [], cache_writable = True, cache_partial = None\<rparr>)
   \<and> cache_file readonly_store = None \<and> \<not> cache_writable readonly_store
   \<and> data (snd (setup_db Some id readonly_store)) = []
   \<and> fst (setup_db Some id readonly_store) = Inl PersistenceFailure"
proof -
  have h1: "cache_file restart_store = Some (data abc_store)" "cache_writable restart_store"
    by (simp_all add: restart_store_def abc_store_eq)
  have h2: "cache_file locked_store = Some (data abc_store)" "\<not> cache_writable locked_store"
    by (simp_all add: locked_store_def restart_store_def abc_store_eq)
  have h3: "cache_file fresh_store = None" "cache_writable fresh_store"
    by (simp_all add: fresh_store_def)
  have h4: "cache_file readonly_store = None" "\<not> cache_writable readonly_store"
    by (simp_all add: readonly_store_def)
  have e: "restart_store\<lparr>data := data abc_store, cache_file := Some (data abc_store)\<rparr> = abc_store"
    by (simp add: restart_store_def abc_store_eq)
  from setup_loads_or_starts_empty [of restart_store "data abc_store" Some "data abc_store" id]
    setup_loads_or_starts_empty [of locked_store "data abc_store" Some "data abc_store" id]
    setup_loads_or_starts_empty [of fresh_store "[]" Some "[]" id]
    setup_loads_or_starts_empty [of readonly_store "[]" Some "[]" id]
    h1 h2 h3 h4 e
  show ?thesis by (simp add: fresh_store_def)
qed

text \<open>
  C9 as stated fails: on a first run (no file) with a disk that refuses the write, \<open>setup\<close>
  does not return normally.
\<close>

theorem setup_loads_or_starts_empty_counterexample:
  "cache_file readonly_store = None
   \<and> fst (setup_db Some id readonly_store) = Inl PersistenceFailure"
  by (simp add: setup_db_def save_def readonly_store_def)


section \<open>The claim about persisting and reloading\<close>





section \<open>The claims about the ranking\<close>

text \<open>
  C6. For every query embedding, list of entries and \<open>k > 0\<close>, \<open>rank\<close> returns the first \<open>k\<close>
  of a list that is in descending order of score and in which the entries of any one score
  stand as they stood in the input (a stable sort of the scored entries). On the entries A
  (0.9), B (0.5), C (0.9), in this order, \<open>rank\<close> with \<open>k = 2\<close> returns A then C.
\<close>

theorem rank_sorted_stable:
  assumes "0 < k"
  shows "(\<exists>sorted_entries.
            rank q es k = Inr (take (nat k) sorted_entries)
            \<and> sorted_wrt (\<lambda>a b. score b \<le> score a) sorted_entries
            \<and> (\<forall>v. filter (\<lambda>r. score r = v) sorted_entries = filter (\<lambda>r. score r = v) (candidates q es)))
       \<and> (\<exists>out. rank q es k = Inr out \<and> sorted_wrt (\<lambda>a b. score b \<le> score a) out
            \<and> (\<forall>v. prefix (filter (\<lambda>r. score r = v) out) (filter (\<lambda>r. score r = v) (candidates q es))))
       \<and> rank query_x [entry_A, entry_B, entry_C] 2 = Inr [(''A'', ''first'', 9 / 10), (''C'', ''third'', 9 / 10)]"
proof (intro conjI)
  show "\<exists>sorted_entries.
            rank q es k = Inr (take (nat k) sorted_entries)
            \<and> sorted_wrt (\<lambda>a b. score b \<le> score a) sorted_entries
            \<and> (\<forall>v. filter (\<lambda>r. score r = v) sorted_entries = filter (\<lambda>r. score r = v) (candidates q es))"
    using assms rank_positive [of k q es] sorted_sort_by_score [of "candidates q es"]
      stable_sort_by_score [of _ "candidates q es"]
    by blast
next
  let ?out = "take (nat k) (sort_by_score (candidates q es))"
  have "rank q es k = Inr ?out"
    using assms by (rule rank_positive)
  moreover have "sorted_wrt (\<lambda>a b. score b \<le> score a) ?out"
    using sorted_sort_by_score by (rule sorted_wrt_take)
  moreover have "prefix (filter (\<lambda>r. score r = v) ?out) (filter (\<lambda>r. score r = v) (candidates q es))" for v
  proof -
    have "prefix (filter (\<lambda>r. score r = v) ?out) (filter (\<lambda>r. score r = v) (sort_by_score (candidates q es)))"
      by (rule filter_mono_prefix) (rule take_is_prefix)
    then show ?thesis
      by (simp add: stable_sort_by_score)
  qed
  ultimately show "\<exists>out. rank q es k = Inr out \<and> sorted_wrt (\<lambda>a b. score b \<le> score a) out
            \<and> (\<forall>v. prefix (filter (\<lambda>r. score r = v) out) (filter (\<lambda>r. score r = v) (candidates q es)))"
    by blast
next
  show "rank query_x [entry_A, entry_B, entry_C] 2 = Inr [(''A'', ''first'', 9 / 10), (''C'', ''third'', 9 / 10)]"
    by (simp add: rank_def candidates_example sorted_example take_2_of_3)
qed


theorem rank_sorted_stable_witness:
  "(0::int) < 2
   \<and> rank query_x [entry_A, entry_B, entry_C] 2 = Inr [(''A'', ''first'', 9 / 10), (''C'', ''third'', 9 / 10)]
   \<and> sorted_wrt (\<lambda>a b. score b \<le> score a) [(''A'', ''first'', 9 / 10), (''C'', ''third'', 9 / 10 :: real)]"
proof -
  have h: "(0::int) < 2"
    by simp
  note r = rank_sorted_stable [OF h, of query_x "[entry_A, entry_B, entry_C]"]
  from r have e: "rank query_x [entry_A, entry_B, entry_C] 2 =
      Inr [(''A'', ''first'', 9 / 10), (''C'', ''third'', 9 / 10)]"
    by blast
  from r obtain out where "rank query_x [entry_A, entry_B, entry_C] 2 = Inr out"
    and "sorted_wrt (\<lambda>a b. score b \<le> score a) out"
    by blast
  with e have "sorted_wrt (\<lambda>a b. score b \<le> score a) [(''A'', ''first'', 9 / 10), (''C'', ''third'', 9 / 10 :: real)]"
    by simp
  with h e show ?thesis
    by blast
qed

text \<open>
  C7, as the specification has it. For every query embedding, list of entries and \<open>k > 0\<close>,
  \<open>rank\<close> returns at most \<open>k\<close> results and no error. Entries whose embedding has not the
  dimension of the query are skipped, so what it returns when there are no more than \<open>k\<close>
  entries of the query's dimension is all of these, and all entries of the store when every
  one of them has the query's dimension: with \<open>k = 100\<close> and three such entries, exactly three
  results.
\<close>

theorem rank_at_most_k:
  assumes "0 < k"
  shows "\<exists>out. rank q es k = Inr out
           \<and> length out \<le> nat k
           \<and> (length (candidates q es) \<le> nat k \<longrightarrow> mset out = mset (candidates q es))
           \<and> (list_all (\<lambda>e. length (Embeddings e) = length q) es \<and> length es \<le> nat k \<longrightarrow>
                length out = length es)"
proof -
  let ?out = "take (nat k) (sort_by_score (candidates q es))"
  have "rank q es k = Inr ?out"
    using assms by (rule rank_positive)
  moreover have "length ?out \<le> nat k"
    by simp
  moreover have "mset ?out = mset (candidates q es)" if "length (candidates q es) \<le> nat k"
    using that by (simp add: length_sort_by_score mset_sort_by_score)
  moreover have "length ?out = length es"
    if "list_all (\<lambda>e. length (Embeddings e) = length q) es \<and> length es \<le> nat k"
    using that by (simp add: length_sort_by_score length_candidates_all)
  ultimately show ?thesis
    by blast
qed

theorem rank_at_most_k_witness:
  "(0::int) < 100
   \<and> list_all (\<lambda>e. length (Embeddings e) = length query_x) [entry_A, entry_B, entry_C]
   \<and> length (candidates query_x [entry_A, entry_B, entry_C]) \<le> nat 100
   \<and> length [entry_A, entry_B, entry_C] \<le> nat 100
   \<and> (\<exists>out. rank query_x [entry_A, entry_B, entry_C] 100 = Inr out \<and> length out = 3
         \<and> mset out = mset (candidates query_x [entry_A, entry_B, entry_C]))"
proof -
  have h1: "(0::int) < 100"
    by simp
  have h2: "list_all (\<lambda>e. length (Embeddings e) = length query_x) [entry_A, entry_B, entry_C]"
    by (simp add: query_x_def entry_A_def entry_B_def entry_C_def)
  have h3: "length (candidates query_x [entry_A, entry_B, entry_C]) \<le> nat 100"
    by (simp add: candidates_example)
  have h4: "length [entry_A, entry_B, entry_C] \<le> nat 100"
    by simp
  from rank_at_most_k [OF h1, of query_x "[entry_A, entry_B, entry_C]"] h2 h3 h4
  have "\<exists>out. rank query_x [entry_A, entry_B, entry_C] 100 = Inr out
          \<and> length out = length [entry_A, entry_B, entry_C]
          \<and> mset out = mset (candidates query_x [entry_A, entry_B, entry_C])"
    by blast
  with h1 h2 h3 h4 show ?thesis
    by (simp add: eval_nat_numeral)
qed

text \<open>
  C7 as stated fails for a query of another dimension than the stored entries: the store
  holds three entries, fewer than \<open>k = 100\<close>, and \<open>rank\<close> returns none of them.
\<close>

theorem rank_at_most_k_counterexample:
  "length [entry_A, entry_B, entry_C] = 3
   \<and> rank query_y [entry_A, entry_B, entry_C] 100 = Inr []"
  by (simp add: rank_def candidates_other_dimension sort_by_score_def)


end
